theory Spec2Isabelle
  imports Complex_Main
begin

section \<open>Python strings\<close>

text \<open>
  A Python \<open>str\<close> is modelled as a \<open>string\<close>; a character stands for the code point with
  the same number, so the model covers the strings whose code points are below 256.
  \<open>str.strip()\<close> removes the characters for which \<open>str.isspace\<close> holds from both ends:
  below 256 these are 9 to 13, 28 to 32, 133 and 160.
\<close>

definition isspace :: "char \<Rightarrow> bool" where
  "isspace c = (let n = (of_char c :: nat) in
     (9 \<le> n \<and> n \<le> 13) \<or> (28 \<le> n \<and> n \<le> 32) \<or> n = 133 \<or> n = 160)"

definition strip :: "string \<Rightarrow> string" where
  "strip s = rev (dropWhile isspace (rev (dropWhile isspace s)))"

definition isdigit :: "char \<Rightarrow> bool" where
  "isdigit c = (let n = (of_char c :: nat) in 48 \<le> n \<and> n \<le> 57)"

text \<open>The code point of a character after \<open>tolower\<close> (ASCII letters only).\<close>

definition lower_code :: "char \<Rightarrow> nat" where
  "lower_code c = (let n = (of_char c :: nat) in if 65 \<le> n \<and> n \<le> 90 then n + 32 else n)"

section \<open>The builtin \<open>float\<close> on strings\<close>

text \<open>
  \<open>validate_price\<close> only observes whether \<open>float(value)\<close> raises \<open>ValueError\<close> and whether
  the result compares \<open><= 0\<close>. The result of \<open>float\<close> is therefore kept as the exact value
  of the literal: not-a-number, an infinity with its sign, or the rational number the
  decimal literal denotes, before it is rounded to a binary64.

  The grammar is the one of CPython: surrounding whitespace is dropped (here the
  characters 9 to 13 and 32, and 133 and 160, which a string that is not pure ASCII has
  turned into blanks first); an underscore may stand between two digits; then comes an
  optional sign and either \<open>inf\<close>, \<open>infinity\<close>, \<open>nan\<close> in any letter case, or digits
  with an optional point and an optional exponent, at least one digit in all.
\<close>

datatype pyfloat = NaN | Infty bool | Dec rat

definition float_space :: "char \<Rightarrow> bool" where
  "float_space c = (let n = (of_char c :: nat) in
     (9 \<le> n \<and> n \<le> 13) \<or> n = 32 \<or> n = 133 \<or> n = 160)"

text \<open>Underscores are only allowed after a digit, before a digit, and not at the end.\<close>

fun underscores_ok :: "char \<Rightarrow> string \<Rightarrow> bool" where
  "underscores_ok prev [] = (if prev = CHR ''_'' then False else True)"
| "underscores_ok prev (c # cs) =
     (if c = CHR ''_'' then (if isdigit prev then underscores_ok c cs else False)
      else if prev = CHR ''_'' then (if isdigit c then underscores_ok c cs else False)
      else underscores_ok c cs)"

fun digits_value :: "nat \<Rightarrow> string \<Rightarrow> nat" where
  "digits_value acc [] = acc"
| "digits_value acc (c # cs) = digits_value (10 * acc + (of_char c - 48)) cs"

definition split_sign :: "string \<Rightarrow> bool \<times> string" where
  "split_sign s = (case s of
       [] \<Rightarrow> (False, [])
     | c # cs \<Rightarrow> if c = CHR ''-'' then (True, cs) else if c = CHR ''+'' then (False, cs) else (False, s))"

text \<open>
  The exponent part after the mantissa: nothing, or \<open>e\<close> or \<open>E\<close>, an optional sign and
  at least one digit. The result is the sign of the exponent and its magnitude.
\<close>

definition parse_exponent :: "string \<Rightarrow> (bool \<times> nat) option" where
  "parse_exponent s = (case s of
       [] \<Rightarrow> Some (False, 0)
     | c # cs \<Rightarrow>
         if c = CHR ''e'' \<or> c = CHR ''E'' then
           (let (neg, ds) = split_sign cs in
            if ds \<noteq> [] \<and> list_all isdigit ds then Some (neg, digits_value 0 ds) else None)
         else None)"

definition parse_decimal :: "bool \<Rightarrow> string \<Rightarrow> pyfloat option" where
  "parse_decimal neg s =
     (let ip = takeWhile isdigit s;
          r1 = dropWhile isdigit s;
          has_point = (case r1 of [] \<Rightarrow> False | c # _ \<Rightarrow> c = CHR ''.'');
          fp = (if has_point then takeWhile isdigit (tl r1) else []);
          r2 = (if has_point then dropWhile isdigit (tl r1) else r1)
      in if ip = [] \<and> fp = [] then None
         else (case parse_exponent r2 of
                 None \<Rightarrow> None
               | Some (eneg, e) \<Rightarrow>
                   (let m = (of_nat (digits_value 0 (ip @ fp)) :: rat) / 10 ^ length fp;
                        v = (if eneg then m / 10 ^ e else m * 10 ^ e)
                    in Some (Dec (if neg then - v else v)))))"

definition py_float :: "string \<Rightarrow> pyfloat option" where
  "py_float value =
     (let s = rev (dropWhile float_space (rev (dropWhile float_space value)))
      in if \<not> underscores_ok (CHR 0x00) s then None
         else (let (neg, body) = split_sign (filter (\<lambda>c. c \<noteq> CHR ''_'') s);
                   word = map lower_code body
               in if word = map of_char ''inf'' \<or> word = map of_char ''infinity''
                  then Some (Infty neg)
                  else if word = map of_char ''nan'' then Some NaN
                  else parse_decimal neg body))"

text \<open>
  \<open>x <= 0\<close> on the float: false for not-a-number, true for minus infinity. A decimal
  literal is rounded to the nearest binary64, ties to even; the smallest positive binary64
  is \<open>2 ^ -1074\<close>, so the literal becomes zero (or a negative number) exactly when its
  value is at most \<open>2 ^ -1075\<close>.
\<close>

definition le_zero :: "pyfloat \<Rightarrow> bool" where
  "le_zero x = (case x of NaN \<Rightarrow> False | Infty neg \<Rightarrow> neg | Dec v \<Rightarrow> v \<le> 1 / 2 ^ 1075)"

section \<open>The models (models.py)\<close>

text \<open>
  One record per model class; the fields carry a prefix because the classes share field
  names. Timestamps are seconds on the clock that is passed to every request. An image
  field holds the name of the stored file, the empty name standing for "no file".
\<close>

record Category =
  c_id :: nat
  c_title :: string
  c_image :: string
  c_crated_at :: nat

record Types =
  t_id :: nat
  t_title :: string
  t_description :: string
  t_category :: nat
  t_crated_at :: nat

record Product =
  p_id :: nat
  p_title :: string
  p_description :: string
  p_category :: nat
  p_types_product :: nat
  p_price :: string
  p_uuid :: string
  p_created_at :: nat
  p_is_active :: bool

record ProductImage =
  pi_id :: nat
  pi_product :: nat
  pi_image :: string

text \<open>
  The state behind the views: the four tables in insertion order, the sequences that hand
  out the primary keys of the two tables this code inserts into, and the names of the
  files that the media storage holds.
\<close>

record store =
  Category_objects :: "Category list"
  Types_objects :: "Types list"
  Product_objects :: "Product list"
  ProductImage_objects :: "ProductImage list"
  product_seq :: nat
  productimage_seq :: nat
  media_files :: "string list"

text \<open>
  An uploaded file as the image field of the serializer sees it: its name, its size and
  whether it passes the image check of the framework.
\<close>

record upload =
  file_name :: string
  file_size :: nat
  is_image :: bool

text \<open>
  What the code uses and the repository does not define: the file storage (the name it
  picks for an upload inside the \<open>upload_to\<close> directory, which depends on the files it
  already holds, since a taken name is replaced by another one; the URL of a stored name;
  and whether writing an upload raises, which may depend on the whole state), and of a
  request the function that makes a URL absolute and the digest under which the page
  cache files the request.
\<close>

record env =
  available_name :: "string list \<Rightarrow> upload \<Rightarrow> string"
  storage_url :: "string \<Rightarrow> string"
  write_fails :: "store \<Rightarrow> upload \<Rightarrow> bool"

record request =
  build_absolute_uri :: "string \<Rightarrow> string"
  url_digest :: string

datatype exn = IntegrityError | StorageError

section \<open>Validation (serializers.py, ProductCreateSerializer)\<close>

text \<open>
  The detail of a \<open>ValidationError\<close>. The first group is raised by the fields of the
  framework, the second by the \<open>validate_<field>\<close> hooks of the repository (one
  constructor per message of the source).
\<close>

datatype detail =
    Required | Blank | MaxLengthExceeded nat | NullCharacters | DoesNotExist nat
  | NoName | EmptyFile | InvalidImage | ChildErrors "(nat \<times> detail) list"
  | TitleTooShort | DescriptionTooShort | PriceNotPositive | PriceNotNumber
  | CategoryNotFound | TypeNotFound

definition validate_title :: "string \<Rightarrow> detail list + string" where
  "validate_title value =
     (if length (strip value) < 3 then Inl [TitleTooShort] else Inr (strip value))"

definition validate_description :: "string \<Rightarrow> detail list + string" where
  "validate_description value =
     (if length (strip value) < 10 then Inl [DescriptionTooShort] else Inr (strip value))"

text \<open>
  \<open>validate_price\<close>: the \<open>ValidationError\<close> raised inside the \<open>try\<close> is not a
  \<open>ValueError\<close>, so it leaves the function; a \<open>ValueError\<close> of \<open>float\<close> becomes the
  second message.
\<close>

definition validate_price :: "string \<Rightarrow> detail list + string" where
  "validate_price value =
     (case py_float value of
        None \<Rightarrow> Inl [PriceNotNumber]
      | Some price_float \<Rightarrow> if le_zero price_float then Inl [PriceNotPositive] else Inr value)"

definition validate_category :: "store \<Rightarrow> Category \<Rightarrow> detail list + Category" where
  "validate_category st value =
     (if \<not> list_ex (\<lambda>r. c_id r = c_id value) (Category_objects st)
      then Inl [CategoryNotFound] else Inr value)"

definition validate_types_product :: "store \<Rightarrow> Types \<Rightarrow> detail list + Types" where
  "validate_types_product st value =
     (if \<not> list_ex (\<lambda>r. t_id r = t_id value) (Types_objects st)
      then Inl [TypeNotFound] else Inr value)"

subsection \<open>The fields of the framework\<close>

text \<open>
  A character field: a missing value is \<open>required\<close>, a value that is empty after
  trimming is \<open>blank\<close>; otherwise the trimmed value goes through the validators (the
  maximal length of the model field, and no null character), whose messages are collected.
\<close>

definition CharField :: "nat option \<Rightarrow> string option \<Rightarrow> detail list + string" where
  "CharField max_length data =
     (case data of
        None \<Rightarrow> Inl [Required]
      | Some s \<Rightarrow>
          if strip s = [] then Inl [Blank]
          else (let value = strip s;
                    errors =
                      (case max_length of
                         None \<Rightarrow> []
                       | Some n \<Rightarrow> if n < length value then [MaxLengthExceeded n] else [])
                      @ (if CHR 0x00 \<in> set value then [NullCharacters] else [])
                in if errors \<noteq> [] then Inl errors else Inr value))"

text \<open>A related field looks the submitted primary key up in its queryset.\<close>

definition PrimaryKeyRelatedField ::
    "('a \<Rightarrow> nat) \<Rightarrow> 'a list \<Rightarrow> nat option \<Rightarrow> detail list + 'a" where
  "PrimaryKeyRelatedField pk queryset data =
     (case data of
        None \<Rightarrow> Inl [Required]
      | Some k \<Rightarrow>
          (case find (\<lambda>r. pk r = k) queryset of
             None \<Rightarrow> Inl [DoesNotExist k]
           | Some r \<Rightarrow> Inr r))"

definition ImageField :: "upload \<Rightarrow> detail + upload" where
  "ImageField data =
     (if file_name data = [] then Inl NoName
      else if file_size data = 0 then Inl EmptyFile
      else if \<not> is_image data then Inl InvalidImage
      else Inr data)"

text \<open>The list field validates every child and reports the failures by index.\<close>

fun run_child_validation :: "nat \<Rightarrow> upload list \<Rightarrow> (nat \<times> detail) list" where
  "run_child_validation idx [] = []"
| "run_child_validation idx (item # rest) =
     (case ImageField item of
        Inl e \<Rightarrow> (idx, e) # run_child_validation (Suc idx) rest
      | Inr _ \<Rightarrow> run_child_validation (Suc idx) rest)"

definition ListField :: "upload list option \<Rightarrow> detail list + upload list option" where
  "ListField data =
     (case data of
        None \<Rightarrow> Inr None
      | Some items \<Rightarrow>
          (let errors = run_child_validation 0 items
           in if errors \<noteq> [] then Inl [ChildErrors errors] else Inr (Some items)))"

subsection \<open>The serializer's validation loop\<close>

text \<open>
  The request data of \<open>product-create\<close> as the parser hands it over; \<open>None\<close> is a key
  that was not sent.
\<close>

record payload =
  title :: "string option"
  description :: "string option"
  category :: "nat option"
  types_product :: "nat option"
  price :: "string option"
  is_active :: "bool option"
  images :: "upload list option"

record validated =
  vd_title :: string
  vd_description :: string
  vd_category :: Category
  vd_types_product :: Types
  vd_price :: string
  vd_is_active :: "bool option"
  vd_images :: "upload list option"

text \<open>A field is validated by the framework first and by its hook second.\<close>

definition then_hook :: "(detail list + 'a) \<Rightarrow> ('a \<Rightarrow> detail list + 'a) \<Rightarrow> detail list + 'a" where
  "then_hook validated_value validate_method =
     (case validated_value of Inl e \<Rightarrow> Inl e | Inr v \<Rightarrow> validate_method v)"

definition run_title :: "payload \<Rightarrow> detail list + string" where
  "run_title data = then_hook (CharField (Some 155) (title data)) validate_title"

definition run_description :: "payload \<Rightarrow> detail list + string" where
  "run_description data = then_hook (CharField None (description data)) validate_description"

definition run_category :: "store \<Rightarrow> payload \<Rightarrow> detail list + Category" where
  "run_category st data =
     then_hook (PrimaryKeyRelatedField c_id (Category_objects st) (category data))
       (validate_category st)"

definition run_types_product :: "store \<Rightarrow> payload \<Rightarrow> detail list + Types" where
  "run_types_product st data =
     then_hook (PrimaryKeyRelatedField t_id (Types_objects st) (types_product data))
       (validate_types_product st)"

definition run_price :: "payload \<Rightarrow> detail list + string" where
  "run_price data = then_hook (CharField (Some 30) (price data)) validate_price"

definition run_images :: "payload \<Rightarrow> detail list + upload list option" where
  "run_images data = ListField (images data)"

definition field_error :: "string \<Rightarrow> (detail list + 'a) \<Rightarrow> (string \<times> detail list) list" where
  "field_error name r = (case r of Inl e \<Rightarrow> [(name, e)] | Inr _ \<Rightarrow> [])"

text \<open>
  The loop over the declared fields, in the order of \<open>Meta.fields\<close>: every field is run,
  each failure is filed under the field's name, and the errors are raised together at the
  end. \<open>is_active\<close> is a boolean with a model default and cannot fail here.
\<close>

definition errors_of :: "store \<Rightarrow> payload \<Rightarrow> (string \<times> detail list) list" where
  "errors_of st data =
     field_error ''title'' (run_title data)
     @ field_error ''description'' (run_description data)
     @ field_error ''category'' (run_category st data)
     @ field_error ''types_product'' (run_types_product st data)
     @ field_error ''price'' (run_price data)
     @ field_error ''images'' (run_images data)"

definition to_internal_value :: "store \<Rightarrow> payload \<Rightarrow> (string \<times> detail list) list + validated" where
  "to_internal_value st data =
     (case run_title data of Inl _ \<Rightarrow> Inl (errors_of st data) | Inr v_title \<Rightarrow>
     (case run_description data of Inl _ \<Rightarrow> Inl (errors_of st data) | Inr v_description \<Rightarrow>
     (case run_category st data of Inl _ \<Rightarrow> Inl (errors_of st data) | Inr v_category \<Rightarrow>
     (case run_types_product st data of Inl _ \<Rightarrow> Inl (errors_of st data) | Inr v_types \<Rightarrow>
     (case run_price data of Inl _ \<Rightarrow> Inl (errors_of st data) | Inr v_price \<Rightarrow>
     (case run_images data of Inl _ \<Rightarrow> Inl (errors_of st data) | Inr v_images \<Rightarrow>
        Inr \<lparr>vd_title = v_title, vd_description = v_description, vd_category = v_category,
             vd_types_product = v_types, vd_price = v_price, vd_is_active = is_active data,
             vd_images = v_images\<rparr>))))))"

section \<open>Writing to the database (ProductCreateSerializer.create)\<close>

text \<open>
  Every \<open>objects.create\<close> is a statement of its own that takes effect when it returns:
  the source opens no transaction. A call that raises leaves the store as it found it,
  and the exception leaves \<open>create\<close> with the store as the earlier calls left it.

  The new product gets the next primary key, the submitted fields, the drawn \<open>uuid4\<close>
  and the clock as \<open>created_at\<close>; \<open>is_active\<close> falls back to the model default. The
  unique constraint on \<open>uuid\<close> rejects a value that is already there.
\<close>

definition Product_objects_create ::
    "nat \<Rightarrow> string \<Rightarrow> store \<Rightarrow> validated \<Rightarrow> store \<times> (exn + Product)" where
  "Product_objects_create now uuid4 st validated_data =
     (if uuid4 \<in> set (map p_uuid (Product_objects st)) then (st, Inl IntegrityError)
      else (let product =
                  \<lparr>p_id = product_seq st,
                   p_title = vd_title validated_data,
                   p_description = vd_description validated_data,
                   p_category = c_id (vd_category validated_data),
                   p_types_product = t_id (vd_types_product validated_data),
                   p_price = vd_price validated_data,
                   p_uuid = uuid4,
                   p_created_at = now,
                   p_is_active = (case vd_is_active validated_data of None \<Rightarrow> False | Some b \<Rightarrow> b)\<rparr>
            in (st\<lparr>Product_objects := Product_objects st @ [product],
                    product_seq := Suc (product_seq st)\<rparr>, Inr product)))"

text \<open>
  The image is stored under \<open>upload_to = 'product'\<close>, under the name that the storage
  picks in view of the files it holds, and the row records that name.
\<close>

definition ProductImage_objects_create ::
    "env \<Rightarrow> store \<Rightarrow> Product \<Rightarrow> upload \<Rightarrow> store \<times> (exn + ProductImage)" where
  "ProductImage_objects_create e st product img =
     (if write_fails e st img then (st, Inl StorageError)
      else (let name = ''product/'' @ available_name e (media_files st) img;
                row = \<lparr>pi_id = productimage_seq st, pi_product = p_id product,
                       pi_image = name\<rparr>
            in (st\<lparr>ProductImage_objects := ProductImage_objects st @ [row],
                    productimage_seq := Suc (productimage_seq st),
                    media_files := media_files st @ [name]\<rparr>, Inr row)))"

text \<open>The loop \<open>for image in images_data\<close>.\<close>

fun create_images :: "env \<Rightarrow> store \<Rightarrow> Product \<Rightarrow> upload list \<Rightarrow> store \<times> (exn + unit)" where
  "create_images e st product [] = (st, Inr ())"
| "create_images e st product (img # rest) =
     (case ProductImage_objects_create e st product img of
        (st', Inl x) \<Rightarrow> (st', Inl x)
      | (st', Inr _) \<Rightarrow> create_images e st' product rest)"

definition ProductCreateSerializer_create ::
    "env \<Rightarrow> nat \<Rightarrow> string \<Rightarrow> store \<Rightarrow> validated \<Rightarrow> store \<times> (exn + Product)" where
  "ProductCreateSerializer_create e now uuid4 st validated_data =
     (let images_data = (case vd_images validated_data of None \<Rightarrow> [] | Some l \<Rightarrow> l)
      in case Product_objects_create now uuid4 st validated_data of
           (st1, Inl x) \<Rightarrow> (st1, Inl x)
         | (st1, Inr product) \<Rightarrow>
             (case create_images e st1 product images_data of
                (st2, Inl x) \<Rightarrow> (st2, Inl x)
              | (st2, Inr _) \<Rightarrow> (st2, Inr product)))"

section \<open>The read serializers (serializers.py)\<close>

record category_repr =
  cr_id :: nat
  cr_title :: string
  cr_image :: "string option"
  cr_crated_at :: nat

record image_repr =
  ir_id :: nat
  ir_image :: "string option"
  ir_image_url :: "string option"
  ir_product :: nat

record product_repr =
  r_id :: nat
  r_uuid :: string
  r_title :: string
  r_description :: string
  r_category :: nat
  r_category_title :: string
  r_types_product :: nat
  r_types_title :: string
  r_created_at :: nat
  r_price :: string
  r_first_image :: "string option"
  r_images :: "image_repr list"
  r_is_active :: bool

text \<open>
  How the framework renders a file field: nothing for an empty file, else the URL of the
  stored name, made absolute when the context has a request.
\<close>

definition file_to_representation :: "env \<Rightarrow> request option \<Rightarrow> string \<Rightarrow> string option" where
  "file_to_representation e context value =
     (if value = [] then None
      else (let url = storage_url e value
            in Some (case context of None \<Rightarrow> url | Some req \<Rightarrow> build_absolute_uri req url)))"

definition CategorySerializer :: "env \<Rightarrow> request option \<Rightarrow> Category \<Rightarrow> category_repr" where
  "CategorySerializer e context obj =
     \<lparr>cr_id = c_id obj, cr_title = c_title obj,
      cr_image = file_to_representation e context (c_image obj),
      cr_crated_at = c_crated_at obj\<rparr>"

definition get_image_url :: "env \<Rightarrow> request option \<Rightarrow> ProductImage \<Rightarrow> string option" where
  "get_image_url e context obj =
     (if pi_image obj \<noteq> [] then
        (let url = storage_url e (pi_image obj)
         in Some (case context of Some req \<Rightarrow> build_absolute_uri req url | None \<Rightarrow> url))
      else None)"

definition ProductImageSerializer :: "env \<Rightarrow> request option \<Rightarrow> ProductImage \<Rightarrow> image_repr" where
  "ProductImageSerializer e context obj =
     \<lparr>ir_id = pi_id obj,
      ir_image = file_to_representation e context (pi_image obj),
      ir_image_url = get_image_url e context obj,
      ir_product = pi_product obj\<rparr>"

text \<open>
  The reverse relation \<open>obj.images\<close>: the rows of the product, in table order for
  \<open>all()\<close>. \<open>first()\<close> on a queryset without an ordering orders by primary key and
  returns the first row, or \<open>None\<close>.
\<close>

definition images_all :: "store \<Rightarrow> nat \<Rightarrow> ProductImage list" where
  "images_all st pk = filter (\<lambda>i. pi_product i = pk) (ProductImage_objects st)"

fun least_pk :: "ProductImage \<Rightarrow> ProductImage list \<Rightarrow> ProductImage" where
  "least_pk best [] = best"
| "least_pk best (row # rows) = least_pk (if pi_id row < pi_id best then row else best) rows"

definition first :: "ProductImage list \<Rightarrow> ProductImage option" where
  "first rows = (case rows of [] \<Rightarrow> None | row # rest \<Rightarrow> Some (least_pk row rest))"

definition get_first_image :: "env \<Rightarrow> request option \<Rightarrow> store \<Rightarrow> Product \<Rightarrow> string option" where
  "get_first_image e context st obj =
     (case first (images_all st (p_id obj)) of
        None \<Rightarrow> None
      | Some first_img \<Rightarrow>
          if pi_image first_img \<noteq> [] then
            (let url = storage_url e (pi_image first_img)
             in Some (case context of Some req \<Rightarrow> build_absolute_uri req url | None \<Rightarrow> url))
          else None)"

text \<open>
  The serializer reads a product together with the category and the type its foreign
  keys point to (the instances \<open>obj.category\<close> and \<open>obj.types_product\<close>).
\<close>

definition ProductSerializer ::
    "env \<Rightarrow> request option \<Rightarrow> store \<Rightarrow> Product \<times> Category \<times> Types \<Rightarrow> product_repr" where
  "ProductSerializer e context st inst =
     (case inst of (obj, cat, typ) \<Rightarrow>
        \<lparr>r_id = p_id obj, r_uuid = p_uuid obj, r_title = p_title obj,
         r_description = p_description obj,
         r_category = p_category obj, r_category_title = c_title cat,
         r_types_product = p_types_product obj, r_types_title = t_title typ,
         r_created_at = p_created_at obj, r_price = p_price obj,
         r_first_image = get_first_image e context st obj,
         r_images = map (ProductImageSerializer e context) (images_all st (p_id obj)),
         r_is_active = p_is_active obj\<rparr>)"

section \<open>The cache\<close>

text \<open>
  What a view returns or caches: serialized data, or a response with its status and data.
  The cache is one key-value store for the whole application (the views' own entries and
  the entries of the page cache live side by side); an entry carries the time at which it
  expires and cannot be read from then on.
\<close>

datatype pyobj =
    ProductData product_repr
  | ProductListData "product_repr list"
  | CategoryListData "category_repr list"
  | CategoryValues "Category list"
  | ErrorDict "(string \<times> detail list) list"
  | Response nat pyobj

type_synonym cache = "string \<Rightarrow> (pyobj \<times> nat) option"

definition cache_get :: "nat \<Rightarrow> cache \<Rightarrow> string \<Rightarrow> pyobj option" where
  "cache_get now c key =
     (case c key of
        None \<Rightarrow> None
      | Some (v, expires) \<Rightarrow> if expires \<le> now then None else Some v)"

definition cache_set :: "nat \<Rightarrow> cache \<Rightarrow> string \<Rightarrow> pyobj \<Rightarrow> nat \<Rightarrow> cache" where
  "cache_set now c key v timeout = c(key \<mapsto> (v, now + timeout))"

definition cache_delete :: "cache \<Rightarrow> string \<Rightarrow> cache" where
  "cache_delete c key = c(key := None)"

text \<open>
  The decorator \<open>cache_page(timeout)\<close> on \<open>dispatch\<close>: the response of a GET request is
  looked up under a key that the framework derives from the request (it starts with
  \<open>views.decorators.cache.cache_page\<close>); on a hit the view is not called, on a miss the
  view runs and a response with status 200 is stored for \<open>timeout\<close> seconds.
\<close>

definition page_key :: "request \<Rightarrow> string" where
  "page_key req = ''views.decorators.cache.cache_page.'' @ url_digest req"

definition cache_page ::
    "nat \<Rightarrow> (cache \<Rightarrow> pyobj \<times> cache) \<Rightarrow> nat \<Rightarrow> request \<Rightarrow> cache \<Rightarrow> pyobj \<times> cache" where
  "cache_page timeout view now req c =
     (case cache_get now c (page_key req) of
        Some response \<Rightarrow> (response, c)
      | None \<Rightarrow>
          (case view c of
             (response, c') \<Rightarrow>
               (response,
                case response of
                  Response code _ \<Rightarrow>
                    if code = 200 then cache_set now c' (page_key req) response timeout else c'
                | _ \<Rightarrow> c')))"

section \<open>The views (views.py)\<close>

subsection \<open>CategoryAPIView\<close>

definition CategoryAPIView_get_queryset :: "nat \<Rightarrow> store \<Rightarrow> cache \<Rightarrow> Category list \<times> cache" where
  "CategoryAPIView_get_queryset now st c =
     (let cache_key = ''category_list'';
          cached_data = cache_get now c cache_key;
          c' = (case cached_data of
                  None \<Rightarrow> cache_set now c cache_key (CategoryValues (Category_objects st)) (60 * 15)
                | Some _ \<Rightarrow> c)
      in (Category_objects st, c'))"

text \<open>The list method of the generic view serializes the queryset with the request in the context.\<close>

definition CategoryAPIView_list :: "env \<Rightarrow> nat \<Rightarrow> request \<Rightarrow> store \<Rightarrow> cache \<Rightarrow> pyobj \<times> cache" where
  "CategoryAPIView_list e now req st c =
     (case CategoryAPIView_get_queryset now st c of
        (queryset, c') \<Rightarrow>
          (Response 200 (CategoryListData (map (CategorySerializer e (Some req)) queryset)), c'))"

definition CategoryAPIView_dispatch :: "env \<Rightarrow> nat \<Rightarrow> request \<Rightarrow> store \<Rightarrow> cache \<Rightarrow> pyobj \<times> cache" where
  "CategoryAPIView_dispatch e now req st c =
     cache_page (60 * 15) (CategoryAPIView_list e now req st) now req c"

subsection \<open>ProductAPIView\<close>

text \<open>
  \<open>select_related('category', 'types_product')\<close> joins every product with the rows its
  two foreign keys name (a product without them is not in the join);
  \<open>prefetch_related\<close> of \<open>images\<close> loads the image rows that the serializer reads
  through \<open>images_all\<close>.
\<close>

definition ProductAPIView_get_queryset :: "store \<Rightarrow> (Product \<times> Category \<times> Types) list" where
  "ProductAPIView_get_queryset st =
     List.map_filter
       (\<lambda>obj. case find (\<lambda>r. c_id r = p_category obj) (Category_objects st) of
                 None \<Rightarrow> None
               | Some cat \<Rightarrow>
                   (case find (\<lambda>r. t_id r = p_types_product obj) (Types_objects st) of
                      None \<Rightarrow> None
                    | Some typ \<Rightarrow> Some (obj, cat, typ)))
       (Product_objects st)"

definition ProductAPIView_list :: "env \<Rightarrow> nat \<Rightarrow> request \<Rightarrow> store \<Rightarrow> cache \<Rightarrow> pyobj \<times> cache" where
  "ProductAPIView_list e now req st c =
     (let cache_key = ''product_list'';
          cached_data = cache_get now c cache_key
      in case cached_data of
           None \<Rightarrow>
             (let response_data =
                    ProductListData
                      (map (ProductSerializer e (Some req) st) (ProductAPIView_get_queryset st))
              in (Response 200 response_data, cache_set now c cache_key response_data (60 * 5)))
         | Some d \<Rightarrow> (Response 200 d, c))"

definition ProductAPIView_dispatch :: "env \<Rightarrow> nat \<Rightarrow> request \<Rightarrow> store \<Rightarrow> cache \<Rightarrow> pyobj \<times> cache" where
  "ProductAPIView_dispatch e now req st c =
     cache_page (60 * 5) (ProductAPIView_list e now req st) now req c"

subsection \<open>ProductCreateView\<close>

text \<open>
  \<open>is_valid(raise_exception=True)\<close> ends the request with status 400 and the error
  mapping. An exception of \<open>save\<close> leaves the view (a server error) before the cache is
  touched. Otherwise the entry \<open>product_list\<close> is deleted and the product is returned
  through the read serializer with status 201.
\<close>

definition ProductCreateView_create ::
    "env \<Rightarrow> nat \<Rightarrow> string \<Rightarrow> request \<Rightarrow> store \<Rightarrow> cache \<Rightarrow> payload
      \<Rightarrow> (exn + pyobj) \<times> store \<times> cache" where
  "ProductCreateView_create e now uuid4 req st c data =
     (case to_internal_value st data of
        Inl errors \<Rightarrow> (Inr (Response 400 (ErrorDict errors)), st, c)
      | Inr validated_data \<Rightarrow>
          (case ProductCreateSerializer_create e now uuid4 st validated_data of
             (st', Inl x) \<Rightarrow> (Inl x, st', c)
           | (st', Inr product) \<Rightarrow>
               (let c' = cache_delete c ''product_list'';
                    inst = (product, vd_category validated_data, vd_types_product validated_data)
                in (Inr (Response 201 (ProductData (ProductSerializer e (Some req) st' inst))),
                    st', c'))))"

section \<open>What a creation writes\<close>

text \<open>
  Names for stating the effect of \<open>create\<close>: the product row built from the validated
  data and the state once it is inserted, the submitted images, the state after one image
  write that does not raise and after a list of them, the number of uploads written
  before the first write that raises (in the state the earlier writes have left), the
  names that the storage picks for a list of uploads one after the other, and the image
  rows for a list of names, numbered from the sequence.
\<close>

definition new_product :: "nat \<Rightarrow> string \<Rightarrow> store \<Rightarrow> validated \<Rightarrow> Product" where
  "new_product now uuid4 st vd =
     \<lparr>p_id = product_seq st, p_title = vd_title vd, p_description = vd_description vd,
      p_category = c_id (vd_category vd), p_types_product = t_id (vd_types_product vd),
      p_price = vd_price vd, p_uuid = uuid4, p_created_at = now,
      p_is_active = (case vd_is_active vd of None \<Rightarrow> False | Some b \<Rightarrow> b)\<rparr>"

definition with_product :: "store \<Rightarrow> Product \<Rightarrow> store" where
  "with_product st p =
     st\<lparr>Product_objects := Product_objects st @ [p], product_seq := Suc (product_seq st)\<rparr>"

definition submitted :: "validated \<Rightarrow> upload list" where
  "submitted vd = (case vd_images vd of None \<Rightarrow> [] | Some l \<Rightarrow> l)"

definition write_row :: "env \<Rightarrow> nat \<Rightarrow> store \<Rightarrow> upload \<Rightarrow> store" where
  "write_row e pk st u =
     st\<lparr>ProductImage_objects :=
          ProductImage_objects st
            @ [\<lparr>pi_id = productimage_seq st, pi_product = pk,
                pi_image = ''product/'' @ available_name e (media_files st) u\<rparr>],
        productimage_seq := Suc (productimage_seq st),
        media_files := media_files st @ [''product/'' @ available_name e (media_files st) u]\<rparr>"

fun write_rows :: "env \<Rightarrow> nat \<Rightarrow> store \<Rightarrow> upload list \<Rightarrow> store" where
  "write_rows e pk st [] = st"
| "write_rows e pk st (u # us) = write_rows e pk (write_row e pk st u) us"

fun written_count :: "env \<Rightarrow> nat \<Rightarrow> store \<Rightarrow> upload list \<Rightarrow> nat" where
  "written_count e pk st [] = 0"
| "written_count e pk st (u # us) =
     (if write_fails e st u then 0 else Suc (written_count e pk (write_row e pk st u) us))"

fun new_names :: "env \<Rightarrow> string list \<Rightarrow> upload list \<Rightarrow> string list" where
  "new_names e files [] = []"
| "new_names e files (u # us) =
     (''product/'' @ available_name e files u)
       # new_names e (files @ [''product/'' @ available_name e files u]) us"

fun rows_of :: "nat \<Rightarrow> nat \<Rightarrow> string list \<Rightarrow> ProductImage list" where
  "rows_of pk n [] = []"
| "rows_of pk n (name # names) =
     \<lparr>pi_id = n, pi_product = pk, pi_image = name\<rparr> # rows_of pk (Suc n) names"

text \<open>The products of the table whose category and type both exist.\<close>

definition resolvable :: "store \<Rightarrow> Product \<Rightarrow> bool" where
  "resolvable st obj =
     (list_ex (\<lambda>r. c_id r = p_category obj) (Category_objects st)
      \<and> list_ex (\<lambda>r. t_id r = p_types_product obj) (Types_objects st))"

section \<open>Example data\<close>

text \<open>
  A small database (one category, one type, no product) with one file in the media
  storage; a file storage that keeps an uploaded name when it is free and inserts a
  suffix before the extension when it is taken, and serves the files under \<open>/media/\<close>; a
  second storage that has room for two files only; a request to the test server; a valid
  creation payload with two images, its validated form, and the database and the
  representation after that product has been created at time 10 with the identifier
  \<open>u1\<close>; the same payload with the same image submitted twice; and the database with a
  second product, without images, and its representation. The closed theorems below
  evaluate the code on them.
\<close>

definition ex_env :: env where
  "ex_env =
     \<lparr>available_name =
        (\<lambda>files u.
           if ''product/'' @ file_name u \<in> set files
           then takeWhile (\<lambda>c. c \<noteq> CHR ''.'') (file_name u) @ ''_6FtuLLG''
                  @ dropWhile (\<lambda>c. c \<noteq> CHR ''.'') (file_name u)
           else file_name u),
      storage_url = (\<lambda>n. ''/media/'' @ n),
      write_fails = (\<lambda>st u. False)\<rparr>"

definition ex_failing_env :: env where
  "ex_failing_env = ex_env\<lparr>write_fails := (\<lambda>st u. 2 \<le> length (media_files st))\<rparr>"

definition ex_request :: request where
  "ex_request = \<lparr>build_absolute_uri = (\<lambda>u. ''http://testserver'' @ u),
                 url_digest = ''GET.product-list''\<rparr>"

definition ex_store :: store where
  "ex_store =
     \<lparr>Category_objects =
        [\<lparr>c_id = 1, c_title = ''Shoes'', c_image = ''category/s.png'', c_crated_at = 0\<rparr>],
      Types_objects =
        [\<lparr>t_id = 1, t_title = ''Boots'', t_description = ''Leather boots'',
          t_category = 1, t_crated_at = 0\<rparr>],
      Product_objects = [], ProductImage_objects = [], product_seq = 1, productimage_seq = 1,
      media_files = [''category/s.png'']\<rparr>"

definition ex_payload :: payload where
  "ex_payload =
     \<lparr>title = Some ''Hiking boot'', description = Some ''Sturdy leather boot'',
      category = Some 1, types_product = Some 1, price = Some ''19.99'', is_active = Some True,
      images = Some [\<lparr>file_name = ''a.png'', file_size = 10, is_image = True\<rparr>,
                     \<lparr>file_name = ''b.png'', file_size = 20, is_image = True\<rparr>]\<rparr>"

definition ex_twin_payload :: payload where
  "ex_twin_payload =
     ex_payload\<lparr>images := Some [\<lparr>file_name = ''a.png'', file_size = 10, is_image = True\<rparr>,
                                \<lparr>file_name = ''a.png'', file_size = 10, is_image = True\<rparr>]\<rparr>"

definition ex_validated :: validated where
  "ex_validated =
     \<lparr>vd_title = ''Hiking boot'', vd_description = ''Sturdy leather boot'',
      vd_category = \<lparr>c_id = 1, c_title = ''Shoes'', c_image = ''category/s.png'', c_crated_at = 0\<rparr>,
      vd_types_product = \<lparr>t_id = 1, t_title = ''Boots'', t_description = ''Leather boots'',
          t_category = 1, t_crated_at = 0\<rparr>,
      vd_price = ''19.99'', vd_is_active = Some True,
      vd_images = Some [\<lparr>file_name = ''a.png'', file_size = 10, is_image = True\<rparr>,
                        \<lparr>file_name = ''b.png'', file_size = 20, is_image = True\<rparr>]\<rparr>"

definition ex_repr :: product_repr where
  "ex_repr =
     \<lparr>r_id = 1, r_uuid = ''u1'', r_title = ''Hiking boot'',
      r_description = ''Sturdy leather boot'', r_category = 1, r_category_title = ''Shoes'',
      r_types_product = 1, r_types_title = ''Boots'', r_created_at = 10, r_price = ''19.99'',
      r_first_image = Some ''http://testserver/media/product/a.png'',
      r_images =
        [\<lparr>ir_id = 1, ir_image = Some ''http://testserver/media/product/a.png'',
          ir_image_url = Some ''http://testserver/media/product/a.png'', ir_product = 1\<rparr>,
         \<lparr>ir_id = 2, ir_image = Some ''http://testserver/media/product/b.png'',
          ir_image_url = Some ''http://testserver/media/product/b.png'', ir_product = 1\<rparr>],
      r_is_active = True\<rparr>"

definition ex_store_after :: store where
  "ex_store_after =
     ex_store\<lparr>Product_objects :=
         [\<lparr>p_id = 1, p_title = ''Hiking boot'', p_description = ''Sturdy leather boot'',
           p_category = 1, p_types_product = 1, p_price = ''19.99'', p_uuid = ''u1'',
           p_created_at = 10, p_is_active = True\<rparr>],
       product_seq := 2,
       ProductImage_objects :=
         [\<lparr>pi_id = 1, pi_product = 1, pi_image = ''product/a.png''\<rparr>,
          \<lparr>pi_id = 2, pi_product = 1, pi_image = ''product/b.png''\<rparr>],
       productimage_seq := 3,
       media_files := [''category/s.png'', ''product/a.png'', ''product/b.png'']\<rparr>"

definition ex_store_two :: store where
  "ex_store_two =
     ex_store_after\<lparr>Product_objects := Product_objects ex_store_after @
         [\<lparr>p_id = 2, p_title = ''Rain boot'', p_description = ''Rubber boot for rain'',
           p_category = 1, p_types_product = 1, p_price = ''9.50'', p_uuid = ''u2'',
           p_created_at = 15, p_is_active = False\<rparr>],
       product_seq := 3\<rparr>"

definition ex_repr_two :: product_repr where
  "ex_repr_two =
     \<lparr>r_id = 2, r_uuid = ''u2'', r_title = ''Rain boot'',
      r_description = ''Rubber boot for rain'', r_category = 1, r_category_title = ''Shoes'',
      r_types_product = 1, r_types_title = ''Boots'', r_created_at = 15, r_price = ''9.50'',
      r_first_image = None, r_images = [], r_is_active = False\<rparr>"

section \<open>Properties of the validation\<close>

lemmas float_defs = py_float_def parse_decimal_def parse_exponent_def split_sign_def isdigit_def
  float_space_def lower_code_def le_zero_def

lemmas field_defs = run_title_def run_description_def run_category_def run_types_product_def
  run_price_def run_images_def then_hook_def CharField_def PrimaryKeyRelatedField_def
  ListField_def ImageField_def validate_title_def validate_description_def validate_price_def
  validate_category_def validate_types_product_def strip_def isspace_def


text \<open>The entry of the error mapping under a field's name is the failure of that field.\<close>

lemma map_of_field_error:
  "map_of (field_error n r) k = (if k = n then (case r of Inl e \<Rightarrow> Some e | Inr _ \<Rightarrow> None) else None)"
  by (simp add: field_error_def split: sum.splits)



lemma errors_of_category:
  "map_of (errors_of st data) ''category'' = (case run_category st data of Inl e \<Rightarrow> Some e | Inr _ \<Rightarrow> None)"
  by (simp add: errors_of_def map_add_def map_of_field_error split: sum.splits option.splits)

lemma errors_of_types_product:
  "map_of (errors_of st data) ''types_product'' = (case run_types_product st data of Inl e \<Rightarrow> Some e | Inr _ \<Rightarrow> None)"
  by (simp add: errors_of_def map_add_def map_of_field_error split: sum.splits option.splits)


lemma to_internal_value_Inl:
  "to_internal_value st data = Inl errs \<Longrightarrow> errs = errors_of st data"
  by (auto simp: to_internal_value_def split: sum.splits)

lemma to_internal_value_fails:
  "run_title data = Inl x \<or> run_description data = Inl x \<or> run_category st data = Inl x
   \<or> run_types_product st data = Inl x \<or> run_price data = Inl x
   \<Longrightarrow> to_internal_value st data = Inl (errors_of st data)"
  by (auto simp: to_internal_value_def split: sum.splits)

lemma to_internal_value_Inr:
  "to_internal_value st data = Inr vd \<Longrightarrow>
     run_title data = Inr (vd_title vd) \<and> run_description data = Inr (vd_description vd)
     \<and> run_category st data = Inr (vd_category vd)
     \<and> run_types_product st data = Inr (vd_types_product vd)
     \<and> run_price data = Inr (vd_price vd) \<and> run_images data = Inr (vd_images vd)
     \<and> vd_is_active vd = is_active data"
  by (auto simp: to_internal_value_def split: sum.splits)

lemma create_view_invalid:
  "to_internal_value st data = Inl (errors_of st data) \<Longrightarrow>
     ProductCreateView_create e now uuid4 req st c data
       = (Inr (Response 400 (ErrorDict (errors_of st data))), st, c)"
  by (simp add: ProductCreateView_create_def)

text \<open>
  Claim C5. The price is accepted if and only if it parses as a number that is strictly
  positive: \<open>-5\<close>, \<open>abc\<close> and \<open>0\<close> are rejected and \<open>19.99\<close> is accepted. The four
  examples behave as the claim says, but the hook also accepts \<open>nan\<close>, which \<open>float\<close>
  parses and which is not a number, let alone a positive one: the comparison \<open><= 0\<close> is
  false for it.
\<close>

theorem validate_price_accepts_nan:
  "validate_price ''nan'' = Inr ''nan''
   \<and> validate_price ''-5'' = Inl [PriceNotPositive]
   \<and> validate_price ''abc'' = Inl [PriceNotNumber]
   \<and> validate_price ''0'' = Inl [PriceNotPositive]
   \<and> validate_price ''19.99'' = Inr ''19.99''"
  by (simp add: validate_price_def float_defs Let_def)

text \<open>
  Claim C6. A creation payload whose category identity does not resolve to an existing
  Category fails with status 400 and an error filed under \<open>category\<close>, and one whose type
  identity does not resolve fails with status 400 and an error filed under
  \<open>types_product\<close>, whatever the other fields hold. Nothing is written, and the cache is
  left alone.
\<close>

theorem missing_reference_rejected:
  "(category data = Some k \<and> \<not> list_ex (\<lambda>r. c_id r = k) (Category_objects st) \<longrightarrow>
      ProductCreateView_create e now uuid4 req st c data
        = (Inr (Response 400 (ErrorDict (errors_of st data))), st, c)
      \<and> map_of (errors_of st data) ''category'' = Some [DoesNotExist k])
   \<and> (types_product data = Some j \<and> \<not> list_ex (\<lambda>r. t_id r = j) (Types_objects st) \<longrightarrow>
      ProductCreateView_create e now uuid4 req st c data
        = (Inr (Response 400 (ErrorDict (errors_of st data))), st, c)
      \<and> map_of (errors_of st data) ''types_product'' = Some [DoesNotExist j])"
proof -
  have find_none: "\<And>P xs. \<not> list_ex P xs \<Longrightarrow> find P xs = None"
    by (simp add: find_None_iff list_ex_iff)
  have ref_c: "run_category st data = Inl [DoesNotExist k]"
    if "category data = Some k" "\<not> list_ex (\<lambda>r. c_id r = k) (Category_objects st)"
    using that find_none [of "\<lambda>r. c_id r = k" "Category_objects st"]
    by (simp add: run_category_def then_hook_def PrimaryKeyRelatedField_def)
  have ref_t: "run_types_product st data = Inl [DoesNotExist j]"
    if "types_product data = Some j" "\<not> list_ex (\<lambda>r. t_id r = j) (Types_objects st)"
    using that find_none [of "\<lambda>r. t_id r = j" "Types_objects st"]
    by (simp add: run_types_product_def then_hook_def PrimaryKeyRelatedField_def)
  show ?thesis
  proof (intro conjI impI)
    assume h: "category data = Some k \<and> \<not> list_ex (\<lambda>r. c_id r = k) (Category_objects st)"
    then have r: "run_category st data = Inl [DoesNotExist k]" using ref_c by blast
    then show "ProductCreateView_create e now uuid4 req st c data
        = (Inr (Response 400 (ErrorDict (errors_of st data))), st, c)"
      using create_view_invalid to_internal_value_fails [of data "[DoesNotExist k]" st] by blast
    show "map_of (errors_of st data) ''category'' = Some [DoesNotExist k]"
      using r by (simp add: errors_of_category)
  next
    assume h: "types_product data = Some j \<and> \<not> list_ex (\<lambda>r. t_id r = j) (Types_objects st)"
    then have r: "run_types_product st data = Inl [DoesNotExist j]" using ref_t by blast
    then show "ProductCreateView_create e now uuid4 req st c data
        = (Inr (Response 400 (ErrorDict (errors_of st data))), st, c)"
      using create_view_invalid to_internal_value_fails [of data "[DoesNotExist j]" st] by blast
    show "map_of (errors_of st data) ''types_product'' = Some [DoesNotExist j]"
      using r by (simp add: errors_of_types_product)
  qed
qed

theorem missing_reference_rejected_witness:
  "ProductCreateView_create ex_env 0 ''u1'' ex_request ex_store Map.empty
      (ex_payload\<lparr>category := Some 7, types_product := Some 9\<rparr>)
     = (Inr (Response 400 (ErrorDict
          [(''category'', [DoesNotExist 7]), (''types_product'', [DoesNotExist 9])])),
        ex_store, Map.empty)"
  using missing_reference_rejected [of "ex_payload\<lparr>category := Some 7, types_product := Some 9\<rparr>"
      7 ex_store ex_env 0 "''u1''" ex_request Map.empty 9]
  by (simp add: ex_payload_def ex_store_def errors_of_def field_error_def field_defs float_defs Let_def)



section \<open>Properties of the creation\<close>

lemmas view_defs = ProductCreateView_create_def to_internal_value_def
  ProductCreateSerializer_create_def Product_objects_create_def ProductImage_objects_create_def
  ProductSerializer_def ProductImageSerializer_def get_first_image_def get_image_url_def
  file_to_representation_def images_all_def first_def cache_delete_def cache_get_def
  cache_set_def cache_page_def page_key_def ProductAPIView_list_def ProductAPIView_dispatch_def
  ProductAPIView_get_queryset_def List.map_filter_def

text \<open>The description functions: what a list of image writes leaves behind.\<close>

lemma written_count_le: "written_count e pk st us \<le> length us"
  by (induction us arbitrary: st) auto

lemma written_count_fails:
  "written_count e pk st us < length us \<Longrightarrow>
     write_fails e (write_rows e pk st (take (written_count e pk st us) us))
       (us ! written_count e pk st us)"
  by (induction us arbitrary: st) auto

lemma length_new_names: "length (new_names e files us) = length us"
  by (induction us arbitrary: files) auto

lemma write_rows_effect:
  "ProductImage_objects (write_rows e pk st us)
     = ProductImage_objects st @ rows_of pk (productimage_seq st) (new_names e (media_files st) us)
   \<and> Product_objects (write_rows e pk st us) = Product_objects st
   \<and> Category_objects (write_rows e pk st us) = Category_objects st
   \<and> Types_objects (write_rows e pk st us) = Types_objects st
   \<and> product_seq (write_rows e pk st us) = product_seq st"
  by (induction us arbitrary: st) (simp_all add: write_row_def)

text \<open>The loop writes the uploads before the first failing one, and stops there.\<close>

lemma create_images_result:
  "create_images e st product imgs =
     (write_rows e (p_id product) st (take (written_count e (p_id product) st imgs) imgs),
      if written_count e (p_id product) st imgs = length imgs then Inr () else Inl StorageError)"
proof (induction imgs arbitrary: st)
  case Nil
  then show ?case by simp
next
  case (Cons u us)
  show ?case
  proof (cases "write_fails e st u")
    case True
    then show ?thesis by (simp add: ProductImage_objects_create_def)
  next
    case False
    then have "\<exists>row. ProductImage_objects_create e st product u
        = (write_row e (p_id product) st u, Inr row)"
      by (simp add: ProductImage_objects_create_def write_row_def Let_def)
    then show ?thesis
      using False Cons.IH [of "write_row e (p_id product) st u"] by auto
  qed
qed

lemma serializer_create_result:
  assumes "uuid4 \<notin> set (map p_uuid (Product_objects st))"
  shows "ProductCreateSerializer_create e now uuid4 st vd =
     (write_rows e (product_seq st) (with_product st (new_product now uuid4 st vd))
        (take (written_count e (product_seq st) (with_product st (new_product now uuid4 st vd))
                 (submitted vd))
           (submitted vd)),
      if written_count e (product_seq st) (with_product st (new_product now uuid4 st vd))
           (submitted vd) = length (submitted vd)
      then Inr (new_product now uuid4 st vd) else Inl StorageError)"
proof -
  have pc: "Product_objects_create now uuid4 st vd
      = (with_product st (new_product now uuid4 st vd), Inr (new_product now uuid4 st vd))"
    using assms by (simp add: Product_objects_create_def new_product_def with_product_def Let_def)
  have pk: "p_id (new_product now uuid4 st vd) = product_seq st"
    by (simp add: new_product_def)
  show ?thesis
    using create_images_result [of e "with_product st (new_product now uuid4 st vd)"
        "new_product now uuid4 st vd" "submitted vd"]
    by (simp add: ProductCreateSerializer_create_def pc pk submitted_def Let_def)
qed

lemma serializer_create_collision:
  assumes "uuid4 \<in> set (map p_uuid (Product_objects st))"
  shows "ProductCreateSerializer_create e now uuid4 st vd = (st, Inl IntegrityError)"
  using assms
  by (simp add: ProductCreateSerializer_create_def Product_objects_create_def Let_def)

lemma serializer_create_success:
  assumes "ProductCreateSerializer_create e now uuid4 st vd = (st', Inr product)"
  shows "product = new_product now uuid4 st vd
     \<and> written_count e (product_seq st) (with_product st product) (submitted vd)
         = length (submitted vd)
     \<and> Product_objects st' = Product_objects st @ [product]
     \<and> ProductImage_objects st' =
         ProductImage_objects st
           @ rows_of (product_seq st) (productimage_seq st)
               (new_names e (media_files st) (submitted vd))
     \<and> Category_objects st' = Category_objects st \<and> Types_objects st' = Types_objects st"
proof (cases "uuid4 \<in> set (map p_uuid (Product_objects st))")
  case True
  then show ?thesis using assms serializer_create_collision [OF True, of e now vd] by simp
next
  case False
  have p: "product = new_product now uuid4 st vd"
    and k: "written_count e (product_seq st) (with_product st (new_product now uuid4 st vd))
              (submitted vd) = length (submitted vd)"
    using assms serializer_create_result [OF False, of e now vd] by (auto split: if_splits)
  have st': "st' = write_rows e (product_seq st) (with_product st product) (submitted vd)"
    using assms serializer_create_result [OF False, of e now vd] p k by simp
  show ?thesis
    using p k write_rows_effect [of e "product_seq st" "with_product st product" "submitted vd"]
    by (simp add: st' with_product_def)
qed

lemma create_view_success:
  assumes "ProductCreateView_create e now uuid4 req st c data = (Inr (Response 201 body), st', c')"
  shows "\<exists>vd product. to_internal_value st data = Inr vd
     \<and> ProductCreateSerializer_create e now uuid4 st vd = (st', Inr product)
     \<and> c' = cache_delete c ''product_list''
     \<and> body = ProductData (ProductSerializer e (Some req) st'
                 (product, vd_category vd, vd_types_product vd))"
  using assms
  by (auto simp: ProductCreateView_create_def Let_def split: sum.splits prod.splits)

lemma ListField_Inr: "ListField d = Inr x \<Longrightarrow> x = d"
  by (auto simp: ListField_def Let_def split: option.splits if_splits)

lemma submitted_images:
  "to_internal_value st data = Inr vd \<Longrightarrow>
     submitted vd = (case images data of None \<Rightarrow> [] | Some l \<Rightarrow> l)"
  using to_internal_value_Inr [of st data vd] ListField_Inr [of "images data" "vd_images vd"]
  by (simp add: submitted_def run_images_def)

text \<open>Reading the image rows of a product whose rows were just written.\<close>

lemma least_pk_rows_of: "pi_id best < n \<Longrightarrow> least_pk best (rows_of pk n names) = best"
  by (induction names arbitrary: n) auto

lemma first_rows_of:
  "first (rows_of pk n names) =
     (case names of [] \<Rightarrow> None
      | name # _ \<Rightarrow> Some \<lparr>pi_id = n, pi_product = pk, pi_image = name\<rparr>)"
  by (cases names) (simp_all add: first_def least_pk_rows_of)

lemma filter_rows_of: "filter (\<lambda>i. pi_product i = pk) (rows_of pk n names) = rows_of pk n names"
  by (induction names arbitrary: n) auto

lemma map_image_rows_of: "map pi_image (rows_of pk n names) = names"
  by (induction names arbitrary: n) auto

lemma map_id_rows_of: "map pi_id (rows_of pk n names) = [n ..< n + length names]"
proof (induction names arbitrary: n)
  case Nil
  then show ?case by simp
next
  case (Cons name names)
  have "[n ..< n + length (name # names)] = n # [Suc n ..< Suc n + length names]"
    using upt_rec [of n "n + length (name # names)"] by simp
  then show ?case using Cons.IH [of "Suc n"] by simp
qed

lemma images_all_fresh:
  assumes "list_all (\<lambda>i. pi_product i < product_seq st) (ProductImage_objects st)"
      and "ProductImage_objects st' = ProductImage_objects st @ rows_of (product_seq st) n names"
  shows "images_all st' (product_seq st) = rows_of (product_seq st) n names"
proof -
  have "filter (\<lambda>i. pi_product i = product_seq st) (ProductImage_objects st) = []"
    using assms(1) by (auto simp: list_all_iff filter_empty_conv)
  then show ?thesis using assms(2) by (simp add: images_all_def filter_rows_of)
qed

text \<open>The example payload is valid, and creating it at time 10 gives the example result.\<close>

lemma ex_to_internal_value: "to_internal_value ex_store ex_payload = Inr ex_validated"
  by (simp add: to_internal_value_def ex_store_def ex_payload_def ex_validated_def field_defs
      float_defs Let_def)

lemma ex_create:
  "ProductCreateView_create ex_env 10 ''u1'' ex_request ex_store c ex_payload
     = (Inr (Response 201 (ProductData ex_repr)), ex_store_after, c(''product_list'' := None))"
  unfolding ProductCreateView_create_def ex_to_internal_value
  by (simp add: view_defs ex_validated_def ex_store_def ex_env_def ex_request_def ex_repr_def
      ex_store_after_def Let_def)

lemma ex_queryset_two:
  "map (ProductSerializer ex_env (Some ex_request) ex_store_two)
     (ProductAPIView_get_queryset ex_store_two) = [ex_repr, ex_repr_two]"
  by (simp add: ex_store_def ex_store_after_def ex_store_two_def ex_repr_def ex_repr_two_def
      ex_env_def ex_request_def
      ProductSerializer_def ProductImageSerializer_def get_first_image_def get_image_url_def
      file_to_representation_def images_all_def first_def ProductAPIView_get_queryset_def
      List.map_filter_def)

text \<open>The storage of the example renames the second of two uploads with the same name.\<close>

lemma ex_twin_create:
  "map pi_image (images_all
       (fst (snd (ProductCreateView_create ex_env 10 ''u1'' ex_request ex_store Map.empty
                    ex_twin_payload))) 1)
     = [''product/a.png'', ''product/a_6FtuLLG.png'']"
  by (simp add: view_defs field_defs float_defs errors_of_def field_error_def
      ex_twin_payload_def ex_payload_def ex_store_def ex_env_def ex_request_def Let_def)

text \<open>
  Claim C2, as stated: creation with images is atomic, either the Product row and one
  ProductImage row per submitted image all become visible or none do. It fails: with a
  storage that has room for one more file only, the write of the second of two images
  raises, the request ends in the storage error and the database keeps the new product
  with its first image only.
\<close>

theorem image_failure_leaves_partial_product:
  "ProductCreateView_create ex_failing_env 0 ''u1'' ex_request ex_store Map.empty ex_payload
     = (Inl StorageError,
        ex_store\<lparr>Product_objects :=
            [\<lparr>p_id = 1, p_title = ''Hiking boot'', p_description = ''Sturdy leather boot'',
              p_category = 1, p_types_product = 1, p_price = ''19.99'', p_uuid = ''u1'',
              p_created_at = 0, p_is_active = True\<rparr>],
          product_seq := 2,
          ProductImage_objects := [\<lparr>pi_id = 1, pi_product = 1, pi_image = ''product/a.png''\<rparr>],
          productimage_seq := 2,
          media_files := [''category/s.png'', ''product/a.png'']\<rparr>,
        Map.empty)"
  unfolding ProductCreateView_create_def ex_to_internal_value
  by (simp add: ProductCreateSerializer_create_def Product_objects_create_def
      ProductImage_objects_create_def ex_validated_def ex_store_def ex_failing_env_def
      ex_env_def Let_def)

text \<open>
  Claim C2, amended: creation writes the Product row first and then one ProductImage row
  per submitted image, in submission order, each write taking effect at once. When every
  write succeeds the product and all its images are in the database and the product is
  returned; when the write of an image raises, the error leaves \<open>create\<close> and the
  product row and the image rows written before the failure stay (nothing is rolled
  back). Here \<open>k\<close> is the number of images written before the first write that raises;
  each row carries the name that the storage picked when it was written.
\<close>

theorem create_keeps_rows_written_before_failure:
  assumes "uuid4 \<notin> set (map p_uuid (Product_objects st))"
  shows "case ProductCreateSerializer_create e now uuid4 st vd of
           (st', res) \<Rightarrow>
             (let p = new_product now uuid4 st vd;
                  k = written_count e (product_seq st) (with_product st p) (submitted vd)
              in Product_objects st' = Product_objects st @ [p]
                 \<and> ProductImage_objects st' =
                     ProductImage_objects st
                       @ rows_of (product_seq st) (productimage_seq st)
                           (new_names e (media_files st) (take k (submitted vd)))
                 \<and> k \<le> length (submitted vd)
                 \<and> res = (if k = length (submitted vd) then Inr p else Inl StorageError)
                 \<and> (k < length (submitted vd) \<longrightarrow> write_fails e st' (submitted vd ! k)))"
proof -
  define p where "p = new_product now uuid4 st vd"
  define k where "k = written_count e (product_seq st) (with_product st p) (submitted vd)"
  define st' where "st' = write_rows e (product_seq st) (with_product st p) (take k (submitted vd))"
  have run: "ProductCreateSerializer_create e now uuid4 st vd
      = (st', if k = length (submitted vd) then Inr p else Inl StorageError)"
    using serializer_create_result [OF assms, of e now vd] by (simp add: p_def k_def st'_def)
  have eff: "ProductImage_objects st' =
        ProductImage_objects st
          @ rows_of (product_seq st) (productimage_seq st)
              (new_names e (media_files st) (take k (submitted vd)))"
    and prod: "Product_objects st' = Product_objects st @ [p]"
    using write_rows_effect [of e "product_seq st" "with_product st p" "take k (submitted vd)"]
    by (simp_all add: st'_def with_product_def)
  have le: "k \<le> length (submitted vd)"
    unfolding k_def by (rule written_count_le)
  have fails: "k < length (submitted vd) \<longrightarrow> write_fails e st' (submitted vd ! k)"
    unfolding k_def st'_def using written_count_fails by blast
  show ?thesis
    using run eff prod le fails by (simp add: p_def [symmetric] k_def [symmetric] Let_def)
qed

theorem create_keeps_rows_written_before_failure_witness:
  "''u1'' \<notin> set (map p_uuid (Product_objects ex_store))
   \<and> written_count ex_failing_env 1
       (with_product ex_store (new_product 0 ''u1'' ex_store ex_validated))
       (submitted ex_validated) = 1
   \<and> map pi_image (ProductImage_objects
         (fst (ProductCreateSerializer_create ex_failing_env 0 ''u1'' ex_store ex_validated)))
       = [''product/a.png'']
   \<and> snd (ProductCreateSerializer_create ex_failing_env 0 ''u1'' ex_store ex_validated)
       = Inl StorageError
   \<and> written_count ex_failing_env 1
       (with_product ex_store (new_product 0 ''u1'' ex_store ex_validated))
       [\<lparr>file_name = ''a.png'', file_size = 10, is_image = True\<rparr>,
        \<lparr>file_name = ''a.png'', file_size = 10, is_image = True\<rparr>] = 1"
  using create_keeps_rows_written_before_failure
      [where ?uuid4.0 = "''u1''" and st = ex_store and e = ex_failing_env and now = 0
         and vd = ex_validated]
  by (simp add: ex_store_def ex_failing_env_def ex_env_def ex_validated_def submitted_def
      with_product_def new_product_def write_row_def Let_def split: prod.splits)

text \<open>
  Claim C3, as stated: the 201 response's \<open>first_image\<close> equals the store URL of the
  first submitted image. It fails: the creation view always passes the request to the
  read serializer, which returns the URL made absolute by the request. For the example
  the store URL is \<open>/media/product/a.png\<close> and the response holds
  \<open>http://testserver/media/product/a.png\<close>.
\<close>

theorem first_image_is_absolute_uri:
  "ProductCreateView_create ex_env 10 ''u1'' ex_request ex_store Map.empty ex_payload
     = (Inr (Response 201 (ProductData ex_repr)), ex_store_after, Map.empty)
   \<and> r_first_image ex_repr = Some ''http://testserver/media/product/a.png''
   \<and> storage_url ex_env (''product/'' @ available_name ex_env (media_files ex_store)
         \<lparr>file_name = ''a.png'', file_size = 10, is_image = True\<rparr>) = ''/media/product/a.png''"
proof -
  have "ProductCreateView_create ex_env 10 ''u1'' ex_request ex_store Map.empty ex_payload
     = (Inr (Response 201 (ProductData ex_repr)), ex_store_after, Map.empty)"
    by (simp add: ex_create)
  moreover have "r_first_image ex_repr = Some ''http://testserver/media/product/a.png''"
    by (simp add: ex_repr_def)
  moreover have "storage_url ex_env (''product/'' @ available_name ex_env (media_files ex_store)
         \<lparr>file_name = ''a.png'', file_size = 10, is_image = True\<rparr>) = ''/media/product/a.png''"
    by (simp add: ex_env_def ex_store_def)
  ultimately show ?thesis by (simp only: simp_thms)
qed

text \<open>
  Claim C3, amended: for every creation that ends in a 201 response, \<open>first_image\<close> is
  the absolute URI that the request builds from the store URL of the first submitted
  image (the URL of the name that the storage picked for it), and is absent when no image
  was submitted; the first image of the product is its earliest-inserted image row, which
  is the row of the first submitted image, the images being persisted in submission
  order: the rows of the product carry ascending keys and the names that the storage
  picked for the submitted images one after the other. (The database is assumed to hold
  no image row that points to a product key the sequence has not handed out yet.)
\<close>

theorem first_image_of_created_product:
  assumes "list_all (\<lambda>i. pi_product i < product_seq st) (ProductImage_objects st)"
      and "ProductCreateView_create e now uuid4 req st c data
             = (Inr (Response 201 (ProductData r)), st', c')"
  shows "r_first_image r =
           (case images data of
              None \<Rightarrow> None
            | Some [] \<Rightarrow> None
            | Some (u # us) \<Rightarrow>
                Some (build_absolute_uri req
                        (storage_url e (''product/'' @ available_name e (media_files st) u))))
       \<and> first (images_all st' (r_id r)) =
           (case images data of
              None \<Rightarrow> None
            | Some [] \<Rightarrow> None
            | Some (u # us) \<Rightarrow>
                Some \<lparr>pi_id = productimage_seq st, pi_product = r_id r,
                      pi_image = ''product/'' @ available_name e (media_files st) u\<rparr>)
       \<and> map pi_image (images_all st' (r_id r)) =
           new_names e (media_files st) (case images data of None \<Rightarrow> [] | Some l \<Rightarrow> l)
       \<and> map pi_id (images_all st' (r_id r)) =
           [productimage_seq st ..<
              productimage_seq st + length (case images data of None \<Rightarrow> [] | Some l \<Rightarrow> l)]"
proof -
  obtain vd product where vd: "to_internal_value st data = Inr vd"
    and cr: "ProductCreateSerializer_create e now uuid4 st vd = (st', Inr product)"
    and r: "r = ProductSerializer e (Some req) st' (product, vd_category vd, vd_types_product vd)"
    using create_view_success [OF assms(2)] by auto
  have p: "product = new_product now uuid4 st vd"
    and rows: "ProductImage_objects st' =
         ProductImage_objects st
           @ rows_of (product_seq st) (productimage_seq st)
               (new_names e (media_files st) (submitted vd))"
    using serializer_create_success [OF cr] by auto
  have pid: "r_id r = product_seq st"
    using r p by (simp add: ProductSerializer_def new_product_def)
  have all: "images_all st' (product_seq st)
      = rows_of (product_seq st) (productimage_seq st) (new_names e (media_files st) (submitted vd))"
    using images_all_fresh [OF assms(1) rows] .
  have sub: "submitted vd = (case images data of None \<Rightarrow> [] | Some l \<Rightarrow> l)"
    using submitted_images [OF vd] .
  have fi: "r_first_image r = get_first_image e (Some req) st' product"
    using r by (simp add: ProductSerializer_def)
  have ppk: "p_id product = product_seq st"
    using p by (simp add: new_product_def)
  show ?thesis
    using sub
    by (auto simp: fi pid ppk get_first_image_def all first_rows_of map_image_rows_of
        map_id_rows_of length_new_names Let_def
        split: option.splits list.splits)
qed

theorem first_image_of_created_product_witness:
  "list_all (\<lambda>i. pi_product i < product_seq ex_store) (ProductImage_objects ex_store)
   \<and> ProductCreateView_create ex_env 10 ''u1'' ex_request ex_store Map.empty ex_payload
       = (Inr (Response 201 (ProductData ex_repr)), ex_store_after, Map.empty)
   \<and> r_first_image ex_repr
       = Some (build_absolute_uri ex_request (storage_url ex_env (''product/'' @ ''a.png'')))
   \<and> map pi_image (images_all ex_store_after 1) = [''product/a.png'', ''product/b.png'']
   \<and> map pi_id (images_all ex_store_after 1) = [1, 2]
   \<and> map pi_image (images_all
         (fst (snd (ProductCreateView_create ex_env 10 ''u1'' ex_request ex_store Map.empty
                      ex_twin_payload))) 1)
       = [''product/a.png'', ''product/a_6FtuLLG.png'']"
proof -
  have wf: "list_all (\<lambda>i. pi_product i < product_seq ex_store) (ProductImage_objects ex_store)"
    by (simp add: ex_store_def)
  have run: "ProductCreateView_create ex_env 10 ''u1'' ex_request ex_store Map.empty ex_payload
       = (Inr (Response 201 (ProductData ex_repr)), ex_store_after, Map.empty)"
    by (simp add: ex_create)
  have ids: "map pi_id (images_all ex_store_after 1) = [1, 2]"
    by (simp add: images_all_def ex_store_after_def)
  have fact: "r_first_image ex_repr
       = Some (build_absolute_uri ex_request (storage_url ex_env (''product/'' @ ''a.png'')))
     \<and> map pi_image (images_all ex_store_after 1) = [''product/a.png'', ''product/b.png'']"
    using first_image_of_created_product [OF wf run]
    by (simp add: ex_payload_def ex_env_def ex_repr_def ex_store_def)
  show ?thesis
    using wf run ids fact ex_twin_create by (simp only: simp_thms)
qed

text \<open>
  Claim C8. A successful creation deletes the cache entry \<open>product_list\<close> and leaves every
  other entry as it was, and it answers with status 201 and the read representation of
  the created product (its resolved first image, the title of its category and of its
  type), computed from the database: the response is the same whatever the cache holds.
\<close>

theorem create_deletes_only_product_list:
  assumes "ProductCreateView_create e now uuid4 req st c data = (Inr (Response 201 body), st', c')"
  shows "c' ''product_list'' = None
       \<and> (\<forall>k. k \<noteq> ''product_list'' \<longrightarrow> c' k = c k)
       \<and> (\<forall>c2. fst (ProductCreateView_create e now uuid4 req st c2 data) = Inr (Response 201 body))
       \<and> (\<exists>r product cat ty.
             body = ProductData r
           \<and> product \<in> set (Product_objects st') \<and> r_id r = p_id product
           \<and> r_uuid r = uuid4 \<and> r_title r = p_title product \<and> r_price r = p_price product
           \<and> find (\<lambda>x. c_id x = r_category r) (Category_objects st) = Some cat
           \<and> r_category_title r = c_title cat
           \<and> find (\<lambda>x. t_id x = r_types_product r) (Types_objects st) = Some ty
           \<and> r_types_title r = t_title ty
           \<and> r_first_image r = get_first_image e (Some req) st' product
           \<and> r_images r = map (ProductImageSerializer e (Some req)) (images_all st' (p_id product)))"
proof -
  obtain vd product where vd: "to_internal_value st data = Inr vd"
    and cr: "ProductCreateSerializer_create e now uuid4 st vd = (st', Inr product)"
    and c': "c' = cache_delete c ''product_list''"
    and b: "body = ProductData (ProductSerializer e (Some req) st'
                 (product, vd_category vd, vd_types_product vd))"
    using create_view_success [OF assms] by auto
  have p: "product = new_product now uuid4 st vd"
    and po: "Product_objects st' = Product_objects st @ [product]"
    using serializer_create_success [OF cr] by auto
  have rc: "run_category st data = Inr (vd_category vd)"
    and rt: "run_types_product st data = Inr (vd_types_product vd)"
    using to_internal_value_Inr [OF vd] by auto
  have fc: "find (\<lambda>x. c_id x = c_id (vd_category vd)) (Category_objects st) = Some (vd_category vd)"
    using rc
    by (auto simp: run_category_def then_hook_def PrimaryKeyRelatedField_def validate_category_def
        find_Some_iff split: option.splits sum.splits if_splits)
  have ft: "find (\<lambda>x. t_id x = t_id (vd_types_product vd)) (Types_objects st) = Some (vd_types_product vd)"
    using rt
    by (auto simp: run_types_product_def then_hook_def PrimaryKeyRelatedField_def
        validate_types_product_def find_Some_iff split: option.splits sum.splits if_splits)
  have 1: "c' ''product_list'' = None" and 2: "\<forall>k. k \<noteq> ''product_list'' \<longrightarrow> c' k = c k"
    using c' by (simp_all add: cache_delete_def)
  have 3: "\<forall>c2. fst (ProductCreateView_create e now uuid4 req st c2 data) = Inr (Response 201 body)"
    using vd cr b by (simp add: ProductCreateView_create_def Let_def)
  have 4: "\<exists>r product cat ty.
             body = ProductData r
           \<and> product \<in> set (Product_objects st') \<and> r_id r = p_id product
           \<and> r_uuid r = uuid4 \<and> r_title r = p_title product \<and> r_price r = p_price product
           \<and> find (\<lambda>x. c_id x = r_category r) (Category_objects st) = Some cat
           \<and> r_category_title r = c_title cat
           \<and> find (\<lambda>x. t_id x = r_types_product r) (Types_objects st) = Some ty
           \<and> r_types_title r = t_title ty
           \<and> r_first_image r = get_first_image e (Some req) st' product
           \<and> r_images r = map (ProductImageSerializer e (Some req)) (images_all st' (p_id product))"
    apply (rule exI [of _ "ProductSerializer e (Some req) st' (product, vd_category vd, vd_types_product vd)"])
    apply (rule exI [of _ product])
    apply (rule exI [of _ "vd_category vd"])
    apply (rule exI [of _ "vd_types_product vd"])
    using b po fc ft p
    apply (simp add: ProductSerializer_def new_product_def)
    done
  show ?thesis using 1 2 3 4 by blast
qed

theorem create_deletes_only_product_list_witness:
  "ProductCreateView_create ex_env 10 ''u1'' ex_request ex_store
      (Map.empty(''product_list'' \<mapsto> (ProductListData [], 300),
                 ''category_list'' \<mapsto> (CategoryValues [], 900))) ex_payload
     = (Inr (Response 201 (ProductData ex_repr)), ex_store_after,
        Map.empty(''category_list'' \<mapsto> (CategoryValues [], 900)))"
proof -
  have run: "ProductCreateView_create ex_env 10 ''u1'' ex_request ex_store
      (Map.empty(''product_list'' \<mapsto> (ProductListData [], 300),
                 ''category_list'' \<mapsto> (CategoryValues [], 900))) ex_payload
     = (Inr (Response 201 (ProductData ex_repr)), ex_store_after,
        (Map.empty(''product_list'' \<mapsto> (ProductListData [], 300),
                 ''category_list'' \<mapsto> (CategoryValues [], 900)))(''product_list'' := None))"
    by (rule ex_create)
  show ?thesis
    using run create_deletes_only_product_list [OF run]
    by (simp add: fun_eq_iff)
qed

text \<open>
  Claim C9. The price validator accepts every string that \<open>float\<close> parses and that does
  not compare \<open><= 0\<close>, so the non-finite strings \<open>nan\<close>, \<open>inf\<close> and \<open>Infinity\<close> pass:
  replacing the price of any valid payload by one of them leaves the payload valid, and
  the creation stores a product with that price.
\<close>

theorem non_finite_price_creates_product:
  assumes "to_internal_value st data = Inr vd"
      and "w = ''nan'' \<or> w = ''inf'' \<or> w = ''Infinity''"
      and "uuid4 \<notin> set (map p_uuid (Product_objects st))"
  shows "validate_price w = Inr w
       \<and> to_internal_value st (data\<lparr>price := Some w\<rparr>) = Inr (vd\<lparr>vd_price := w\<rparr>)
       \<and> Product_objects (fst (snd (ProductCreateView_create e now uuid4 req st c
              (data\<lparr>price := Some w\<rparr>))))
           = Product_objects st @ [new_product now uuid4 st (vd\<lparr>vd_price := w\<rparr>)]
       \<and> p_price (new_product now uuid4 st (vd\<lparr>vd_price := w\<rparr>)) = w"
proof -
  have vp: "validate_price w = Inr w"
    using assms(2) by (auto simp: validate_price_def float_defs Let_def)
  have rp: "run_price (data\<lparr>price := Some w\<rparr>) = Inr w"
    using assms(2) vp
    by (auto simp: run_price_def then_hook_def CharField_def strip_def isspace_def Let_def)
  have tv: "to_internal_value st (data\<lparr>price := Some w\<rparr>) = Inr (vd\<lparr>vd_price := w\<rparr>)"
    using to_internal_value_Inr [OF assms(1)] rp
    by (simp add: to_internal_value_def run_title_def run_description_def run_category_def
        run_types_product_def run_images_def)
  have po: "Product_objects (fst (snd (ProductCreateView_create e now uuid4 req st c
              (data\<lparr>price := Some w\<rparr>))))
           = Product_objects st @ [new_product now uuid4 st (vd\<lparr>vd_price := w\<rparr>)]"
    using serializer_create_result [OF assms(3), of e now "vd\<lparr>vd_price := w\<rparr>"]
      write_rows_effect [of e "product_seq st"
        "with_product st (new_product now uuid4 st (vd\<lparr>vd_price := w\<rparr>))"]
    by (simp add: ProductCreateView_create_def tv with_product_def Let_def)
  show ?thesis using vp tv po by (simp add: new_product_def)
qed

theorem non_finite_price_creates_product_witness:
  "to_internal_value ex_store ex_payload = Inr ex_validated
   \<and> ''u1'' \<notin> set (map p_uuid (Product_objects ex_store))
   \<and> map p_price (Product_objects (fst (snd (ProductCreateView_create ex_env 10 ''u1'' ex_request
          ex_store Map.empty (ex_payload\<lparr>price := Some ''nan''\<rparr>))))) = [''nan'']"
proof -
  have u: "''u1'' \<notin> set (map p_uuid (Product_objects ex_store))"
    by (simp add: ex_store_def)
  have "Product_objects (fst (snd (ProductCreateView_create ex_env 10 ''u1'' ex_request
          ex_store Map.empty (ex_payload\<lparr>price := Some ''nan''\<rparr>))))
        = Product_objects ex_store @ [new_product 10 ''u1'' ex_store (ex_validated\<lparr>vd_price := ''nan''\<rparr>)]"
    using non_finite_price_creates_product [OF ex_to_internal_value _ u, of "''nan''" ex_env 10
        ex_request Map.empty]
    by simp
  then show ?thesis
    using ex_to_internal_value u
    by (simp add: ex_store_def new_product_def ex_validated_def)
qed

section \<open>Properties of the caches\<close>

lemma page_key_not_app_key:
  "page_key req \<noteq> ''product_list''" "page_key req \<noteq> ''category_list''"
  by (simp_all add: page_key_def)

lemma fst_cache_page:
  "fst (cache_page timeout view now req c)
     = (case cache_get now c (page_key req) of Some r \<Rightarrow> r | None \<Rightarrow> fst (view c))"
  by (simp add: cache_page_def split: option.splits prod.splits)

text \<open>
  Claim C1. After a successful creation the very next \<open>GET product-list\<close> observes the
  new product. The list method does, but the view is also wrapped in \<open>cache_page\<close>, and
  the creation deletes only the entry \<open>product_list\<close>: a list request at time 0, a
  creation at time 10 and the same list request at time 20 gets the page cached at time
  0, without the product, although the list method itself would return it.
\<close>

theorem stale_list_after_creation:
  "(case ProductAPIView_dispatch ex_env 0 ex_request ex_store Map.empty of
      (r1, c1) \<Rightarrow>
        (case ProductCreateView_create ex_env 10 ''u1'' ex_request ex_store c1 ex_payload of
           (r2, st2, c2) \<Rightarrow>
             (case ProductAPIView_dispatch ex_env 20 ex_request st2 c2 of
                (r3, c3) \<Rightarrow>
                  r1 = Response 200 (ProductListData [])
                  \<and> r2 = Inr (Response 201 (ProductData ex_repr))
                  \<and> map p_title (Product_objects st2) = [''Hiking boot'']
                  \<and> c2 ''product_list'' = None
                  \<and> r3 = Response 200 (ProductListData [])
                  \<and> fst (ProductAPIView_list ex_env 20 ex_request st2 c2)
                      = Response 200 (ProductListData [ex_repr]))))"
  apply (simp add: ex_create split: prod.splits)
  apply (simp add: ProductAPIView_dispatch_def cache_page_def cache_get_def cache_set_def
      page_key_def ProductAPIView_list_def Let_def ProductAPIView_get_queryset_def
      List.map_filter_def)
  apply (simp add: ex_store_def ex_store_after_def ex_repr_def ex_env_def ex_request_def
      ProductSerializer_def ProductImageSerializer_def get_first_image_def get_image_url_def
      file_to_representation_def images_all_def first_def)
  done

text \<open>The queryset lists every product whose category and type exist, in table order.\<close>

lemma find_None_list_ex: "find P xs = None \<longleftrightarrow> \<not> list_ex P xs"
  by (auto simp: find_None_iff list_ex_iff)

lemma queryset_products:
  "map fst (ProductAPIView_get_queryset st) = filter (resolvable st) (Product_objects st)"
proof -
  have "map fst (List.map_filter
          (\<lambda>obj. case find (\<lambda>r. c_id r = p_category obj) (Category_objects st) of
                    None \<Rightarrow> None
                  | Some cat \<Rightarrow>
                      (case find (\<lambda>r. t_id r = p_types_product obj) (Types_objects st) of
                         None \<Rightarrow> None
                       | Some ty \<Rightarrow> Some (obj, cat, ty))) xs)
        = filter (resolvable st) xs" for xs
  proof (induction xs)
    case Nil
    then show ?case by (simp add: List.map_filter_simps)
  next
    case (Cons x xs)
    then show ?case
      using find_None_list_ex [of "\<lambda>r. c_id r = p_category x" "Category_objects st"]
        find_None_list_ex [of "\<lambda>r. t_id r = p_types_product x" "Types_objects st"]
      by (auto simp: List.map_filter_simps resolvable_def split: option.splits)
  qed
  then show ?thesis by (simp add: ProductAPIView_get_queryset_def)
qed

text \<open>
  Claim C4. The list method of the product view is a read-through cache over the key
  \<open>product_list\<close>: when the key is readable it returns the cached data as it is and
  leaves the cache alone; when it is not, it queries the store, serializes the result,
  stores the data under the key for 300 seconds and returns it. The query lists every
  product of the table whose category and type exist, in table order (every product,
  when all their foreign keys resolve), each joined with the category and the type that
  its foreign keys name. Within the 300 seconds every further call returns the same
  data, whatever the database has become; after them the key is unreadable again.
\<close>

theorem product_list_read_through:
  "(cache_get now c ''product_list'' = Some d \<longrightarrow>
      ProductAPIView_list e now req st c = (Response 200 d, c))
   \<and> (cache_get now c ''product_list'' = None \<longrightarrow>
        ProductAPIView_list e now req st c
          = (Response 200 (ProductListData
               (map (ProductSerializer e (Some req) st) (ProductAPIView_get_queryset st))),
             c(''product_list'' \<mapsto>
               (ProductListData
                  (map (ProductSerializer e (Some req) st) (ProductAPIView_get_queryset st)),
                now + 300)))
        \<and> (\<forall>t e2 req2 st2. now \<le> t \<and> t < now + 300 \<longrightarrow>
              fst (ProductAPIView_list e2 t req2 st2 (snd (ProductAPIView_list e now req st c)))
                = fst (ProductAPIView_list e now req st c))
        \<and> cache_get (now + 300) (snd (ProductAPIView_list e now req st c)) ''product_list'' = None)
   \<and> map fst (ProductAPIView_get_queryset st) = filter (resolvable st) (Product_objects st)
   \<and> (list_all (resolvable st) (Product_objects st) \<longrightarrow>
        map fst (ProductAPIView_get_queryset st) = Product_objects st
        \<and> map r_id (map (ProductSerializer e (Some req) st) (ProductAPIView_get_queryset st))
            = map p_id (Product_objects st))
   \<and> list_all
        (\<lambda>(obj, cat, ty). obj \<in> set (Product_objects st)
            \<and> find (\<lambda>r. c_id r = p_category obj) (Category_objects st) = Some cat
            \<and> find (\<lambda>r. t_id r = p_types_product obj) (Types_objects st) = Some ty)
        (ProductAPIView_get_queryset st)"
proof -
  have hit: "ProductAPIView_list e now req st c = (Response 200 d, c)"
    if "cache_get now c ''product_list'' = Some d"
    using that by (simp add: ProductAPIView_list_def Let_def)
  have miss: "ProductAPIView_list e now req st c
          = (Response 200 (ProductListData
               (map (ProductSerializer e (Some req) st) (ProductAPIView_get_queryset st))),
             c(''product_list'' \<mapsto>
               (ProductListData
                  (map (ProductSerializer e (Some req) st) (ProductAPIView_get_queryset st)),
                now + 300)))"
    if "cache_get now c ''product_list'' = None"
    using that by (simp add: ProductAPIView_list_def cache_set_def Let_def)
  have again: "fst (ProductAPIView_list e2 t req2 st2 (snd (ProductAPIView_list e now req st c)))
                = fst (ProductAPIView_list e now req st c)"
    if "cache_get now c ''product_list'' = None" "now \<le> t \<and> t < now + 300" for t e2 req2 st2
    using that miss by (simp add: ProductAPIView_list_def cache_get_def Let_def)
  have expired: "cache_get (now + 300) (snd (ProductAPIView_list e now req st c)) ''product_list'' = None"
    if "cache_get now c ''product_list'' = None"
    using that miss by (simp add: cache_get_def)
  have listed: "map fst (ProductAPIView_get_queryset st) = filter (resolvable st) (Product_objects st)"
    by (rule queryset_products)
  have rid: "r_id (ProductSerializer e (Some req) st inst) = p_id (fst inst)" for inst
    by (cases inst) (simp add: ProductSerializer_def)
  have every: "map fst (ProductAPIView_get_queryset st) = Product_objects st
        \<and> map r_id (map (ProductSerializer e (Some req) st) (ProductAPIView_get_queryset st))
            = map p_id (Product_objects st)"
    if "list_all (resolvable st) (Product_objects st)"
  proof -
    have f: "filter (resolvable st) (Product_objects st) = Product_objects st"
      using that by (simp add: list_all_iff)
    have m: "map fst (ProductAPIView_get_queryset st) = Product_objects st"
      using listed f by simp
    have "map r_id (map (ProductSerializer e (Some req) st) (ProductAPIView_get_queryset st))
        = map p_id (map fst (ProductAPIView_get_queryset st))"
      by (simp add: rid)
    then show ?thesis using m by simp
  qed
  have joined: "list_all
        (\<lambda>(obj, cat, ty). obj \<in> set (Product_objects st)
            \<and> find (\<lambda>r. c_id r = p_category obj) (Category_objects st) = Some cat
            \<and> find (\<lambda>r. t_id r = p_types_product obj) (Types_objects st) = Some ty)
        (ProductAPIView_get_queryset st)"
    by (auto simp: ProductAPIView_get_queryset_def List.map_filter_def list_all_iff
        split: option.splits)
  show ?thesis
    using hit miss again expired listed every joined by blast
qed

theorem product_list_read_through_witness:
  "cache_get 20 (Map.empty(''product_list'' \<mapsto> (ProductListData [], 300))) ''product_list''
     = Some (ProductListData [])
   \<and> ProductAPIView_list ex_env 20 ex_request ex_store_two
       (Map.empty(''product_list'' \<mapsto> (ProductListData [], 300)))
     = (Response 200 (ProductListData []), Map.empty(''product_list'' \<mapsto> (ProductListData [], 300)))
   \<and> cache_get 20 Map.empty ''product_list'' = None
   \<and> ProductAPIView_list ex_env 20 ex_request ex_store_two Map.empty
     = (Response 200 (ProductListData [ex_repr, ex_repr_two]),
        Map.empty(''product_list'' \<mapsto> (ProductListData [ex_repr, ex_repr_two], 320)))
   \<and> fst (ProductAPIView_list ex_env 319 ex_request ex_store
            (snd (ProductAPIView_list ex_env 20 ex_request ex_store_two Map.empty)))
     = Response 200 (ProductListData [ex_repr, ex_repr_two])
   \<and> list_all (resolvable ex_store_two) (Product_objects ex_store_two)
   \<and> map p_id (map fst (ProductAPIView_get_queryset ex_store_two)) = [1, 2]"
proof -
  have h: "cache_get 20 (Map.empty(''product_list'' \<mapsto> (ProductListData [], 300))) ''product_list''
     = Some (ProductListData [])"
    and m: "cache_get 20 Map.empty ''product_list'' = None"
    by (simp_all add: cache_get_def)
  have res: "list_all (resolvable ex_store_two) (Product_objects ex_store_two)"
    by (simp add: resolvable_def ex_store_two_def ex_store_after_def ex_store_def)
  have ids: "map p_id (Product_objects ex_store_two) = [1, 2]"
    by (simp add: ex_store_two_def ex_store_after_def ex_store_def)
  note hit = product_list_read_through [of 20
      "Map.empty(''product_list'' \<mapsto> (ProductListData [], 300))"
      "ProductListData []" ex_env ex_request ex_store_two]
  note miss = product_list_read_through [of 20 Map.empty "ProductListData []" ex_env ex_request
      ex_store_two]
  have r: "\<forall>t e2 req2 st2. 20 \<le> t \<and> t < 20 + 300 \<longrightarrow>
      fst (ProductAPIView_list e2 t req2 st2
            (snd (ProductAPIView_list ex_env 20 ex_request ex_store_two Map.empty)))
        = fst (ProductAPIView_list ex_env 20 ex_request ex_store_two Map.empty)"
    using miss m by blast
  have again: "fst (ProductAPIView_list ex_env 319 ex_request ex_store
            (snd (ProductAPIView_list ex_env 20 ex_request ex_store_two Map.empty)))
     = fst (ProductAPIView_list ex_env 20 ex_request ex_store_two Map.empty)"
    using r [rule_format, of 319 ex_env ex_request ex_store] by simp
  have first_read: "ProductAPIView_list ex_env 20 ex_request ex_store_two Map.empty
     = (Response 200 (ProductListData [ex_repr, ex_repr_two]),
        Map.empty(''product_list'' \<mapsto> (ProductListData [ex_repr, ex_repr_two], 320)))"
    using miss m ex_queryset_two by simp
  have listed: "map fst (ProductAPIView_get_queryset ex_store_two) = Product_objects ex_store_two"
    using miss res by blast
  show ?thesis
    using h m hit again first_read res listed ids by simp
qed

text \<open>
  Claim C10. The entry \<open>category_list\<close> that \<open>CategoryAPIView.get_queryset\<close> writes is
  never read to build a response: for two caches that differ at most at the key
  \<open>category_list\<close> the category list answers the same, its list method always
  serializing the categories of the database, and so do the product list and the
  creation.
\<close>

theorem category_list_entry_never_read:
  assumes "\<forall>k. k \<noteq> ''category_list'' \<longrightarrow> c1 k = c2 k"
  shows "fst (CategoryAPIView_dispatch e now req st c1) = fst (CategoryAPIView_dispatch e now req st c2)
       \<and> fst (CategoryAPIView_list e now req st c1)
           = Response 200 (CategoryListData (map (CategorySerializer e (Some req)) (Category_objects st)))
       \<and> fst (ProductAPIView_dispatch e now req st c1) = fst (ProductAPIView_dispatch e now req st c2)
       \<and> fst (ProductCreateView_create e now uuid4 req st c1 data)
           = fst (ProductCreateView_create e now uuid4 req st c2 data)"
proof -
  have pk: "c1 (page_key req) = c2 (page_key req)"
    using assms page_key_not_app_key(2) by blast
  have pl: "c1 ''product_list'' = c2 ''product_list''"
    using assms by simp
  have l: "fst (CategoryAPIView_list e now req st c)
           = Response 200 (CategoryListData (map (CategorySerializer e (Some req)) (Category_objects st)))"
    for c
    by (simp add: CategoryAPIView_list_def CategoryAPIView_get_queryset_def Let_def
        split: prod.splits)
  have d: "fst (CategoryAPIView_dispatch e now req st c1) = fst (CategoryAPIView_dispatch e now req st c2)"
    using l [of c1] l [of c2] pk
    by (simp add: CategoryAPIView_dispatch_def fst_cache_page cache_get_def split: option.splits)
  have pl2: "fst (ProductAPIView_list e now req st c1) = fst (ProductAPIView_list e now req st c2)"
    using pl by (simp add: ProductAPIView_list_def cache_get_def Let_def split: option.splits prod.splits)
  have p: "fst (ProductAPIView_dispatch e now req st c1) = fst (ProductAPIView_dispatch e now req st c2)"
    using pl2 pk
    by (simp add: ProductAPIView_dispatch_def fst_cache_page cache_get_def split: option.splits)
  have cr: "fst (ProductCreateView_create e now uuid4 req st c1 data)
           = fst (ProductCreateView_create e now uuid4 req st c2 data)"
    by (simp add: ProductCreateView_create_def Let_def split: sum.splits prod.splits)
  show ?thesis using d l [of c1] p cr by simp
qed

theorem category_list_entry_never_read_witness:
  "fst (CategoryAPIView_dispatch ex_env 0 ex_request ex_store Map.empty)
     = fst (CategoryAPIView_dispatch ex_env 0 ex_request ex_store
         (Map.empty(''category_list'' \<mapsto> (CategoryValues [], 900))))
   \<and> fst (CategoryAPIView_dispatch ex_env 0 ex_request ex_store
         (Map.empty(''category_list'' \<mapsto> (CategoryValues [], 900))))
     = Response 200 (CategoryListData
         [\<lparr>cr_id = 1, cr_title = ''Shoes'',
           cr_image = Some ''http://testserver/media/category/s.png'', cr_crated_at = 0\<rparr>])
   \<and> snd (CategoryAPIView_list ex_env 0 ex_request ex_store Map.empty) ''category_list''
     = Some (CategoryValues (Category_objects ex_store), 900)"
proof -
  have same: "fst (CategoryAPIView_dispatch ex_env 0 ex_request ex_store Map.empty)
     = fst (CategoryAPIView_dispatch ex_env 0 ex_request ex_store
         (Map.empty(''category_list'' \<mapsto> (CategoryValues [], 900))))"
    using category_list_entry_never_read [of Map.empty
        "Map.empty(''category_list'' \<mapsto> (CategoryValues [], 900))" ex_env 0 ex_request ex_store]
    by simp
  have val: "fst (CategoryAPIView_dispatch ex_env 0 ex_request ex_store Map.empty)
     = Response 200 (CategoryListData
         [\<lparr>cr_id = 1, cr_title = ''Shoes'',
           cr_image = Some ''http://testserver/media/category/s.png'', cr_crated_at = 0\<rparr>])"
    by (simp add: CategoryAPIView_dispatch_def fst_cache_page cache_get_def
        CategoryAPIView_list_def CategoryAPIView_get_queryset_def Let_def cache_set_def
        CategorySerializer_def file_to_representation_def ex_store_def ex_env_def ex_request_def)
  have wr: "snd (CategoryAPIView_list ex_env 0 ex_request ex_store Map.empty) ''category_list''
     = Some (CategoryValues (Category_objects ex_store), 900)"
    by (simp add: CategoryAPIView_list_def CategoryAPIView_get_queryset_def Let_def
        cache_get_def cache_set_def)
  show ?thesis using same val wr by simp
qed

end
